theory Spec2Isabelle
  imports Complex_Main "HOL-Library.List_Lexorder" "HOL-Library.Char_ord"
begin

section \<open>JavaScript values\<close>

text \<open>
  The two pages (\<open>src/app/apps/scheduling/page.tsx\<close>, the Word-Filter variant, and the
  capacity-reliability page, the Metric variant) work on the untyped cell values that
  \<open>XLSX.utils.sheet_to_json\<close> returns. A number is a rational, an infinity or \<open>NaN\<close>;
  what the pages compute from text (\<open>parseFloat\<close>, \<open>Number\<close>, a division, a subtraction) is
  rounded to binary64 by \<open>toDouble\<close>. \<open>-0\<close> is not told apart from \<open>0\<close> (both are falsy
  and both print as \<open>0\<close>). A string is a list of 8-bit characters, so
  the model covers text whose code units are below 256. A \<open>Date\<close> object carries its time
  value in milliseconds since the epoch, \<open>None\<close> for an invalid date.
\<close>

datatype jsnum = Num rat | PosInf | NegInf | NaN

datatype jsval =
    JUndefined
  | JNull
  | JBool bool
  | JNum jsnum
  | JStr string
  | JDate "int option"

text \<open>\<open>ToBoolean\<close>: what \<open>if (v)\<close>, \<open>v || d\<close> and \<open>v && w\<close> test.\<close>

fun truthy :: "jsval \<Rightarrow> bool" where
  "truthy JUndefined = False"
| "truthy JNull = False"
| "truthy (JBool b) = b"
| "truthy (JNum (Num q)) = (q \<noteq> 0)"
| "truthy (JNum NaN) = False"
| "truthy (JNum PosInf) = True"
| "truthy (JNum NegInf) = True"
| "truthy (JStr s) = (s \<noteq> [])"
| "truthy (JDate t) = True"

subsection \<open>Strings\<close>

text \<open>
  White space as \<open>String.prototype.trim\<close> and the numeric-string grammar read it, in the
  8-bit range: TAB, LF, VT, FF, CR, SPACE and NBSP.
\<close>

definition isWhiteSpace :: "char \<Rightarrow> bool" where
  "isWhiteSpace c = (c \<in> set [CHR 0x09, CHR 0x0A, CHR 0x0B, CHR 0x0C, CHR 0x0D, CHR 0x20, CHR 0xA0])"

definition trimStart :: "string \<Rightarrow> string" where
  "trimStart s = dropWhile isWhiteSpace s"

definition trimEnd :: "string \<Rightarrow> string" where
  "trimEnd s = rev (dropWhile isWhiteSpace (rev s))"

definition trim :: "string \<Rightarrow> string" where
  "trim s = trimEnd (trimStart s)"

definition lowerChar :: "char \<Rightarrow> char" where
  "lowerChar c =
     (let n = (of_char c :: nat)
      in if (65 \<le> n \<and> n \<le> 90) \<or> (192 \<le> n \<and> n \<le> 222 \<and> n \<noteq> 215)
         then char_of (n + 32) else c)"

definition toLowerCase :: "string \<Rightarrow> string" where
  "toLowerCase s = map lowerChar s"

definition startsWith :: "string \<Rightarrow> string \<Rightarrow> bool" where
  "startsWith s p = (take (length p) s = p)"

text \<open>\<open>s.includes(p)\<close> for a one-character pattern, and \<open>s.replace(p, '')\<close>, which removes
  the first occurrence only.\<close>

definition includesChar :: "string \<Rightarrow> char \<Rightarrow> bool" where
  "includesChar s c = (c \<in> set s)"

fun removeFirst :: "char \<Rightarrow> string \<Rightarrow> string" where
  "removeFirst c [] = []"
| "removeFirst c (x # xs) = (if x = c then xs else x # removeFirst c xs)"

text \<open>\<open>s.split(sep)\<close> for a one-character separator: the pieces between the separators,
  one piece (the empty string) for the empty string.\<close>

fun splitOn :: "char \<Rightarrow> string \<Rightarrow> string list" where
  "splitOn c [] = [[]]"
| "splitOn c (x # xs) =
     (if x = c then [] # splitOn c xs
      else (case splitOn c xs of [] \<Rightarrow> [[x]] | p # ps \<Rightarrow> (x # p) # ps))"

definition padStart2 :: "string \<Rightarrow> string" where
  "padStart2 s = replicate (2 - length s) (CHR ''0'') @ s"

subsection \<open>Numeric strings\<close>

definition isDigit :: "char \<Rightarrow> bool" where
  "isDigit c = (CHR ''0'' \<le> c \<and> c \<le> CHR ''9'')"

definition digitOf :: "char \<Rightarrow> nat" where
  "digitOf c =
     (if isDigit c then of_char c - 48
      else if CHR ''a'' \<le> c \<and> c \<le> CHR ''f'' then of_char c - 87
      else if CHR ''A'' \<le> c \<and> c \<le> CHR ''F'' then of_char c - 55
      else 0)"

definition isDigitOfBase :: "nat \<Rightarrow> char \<Rightarrow> bool" where
  "isDigitOfBase b c =
     ((isDigit c \<or> (CHR ''a'' \<le> c \<and> c \<le> CHR ''f'') \<or> (CHR ''A'' \<le> c \<and> c \<le> CHR ''F''))
      \<and> digitOf c < b)"

definition digitsValue :: "nat \<Rightarrow> string \<Rightarrow> int" where
  "digitsValue b ds = foldl (\<lambda>acc c. acc * int b + int (digitOf c)) 0 ds"

text \<open>
  Rounding of a real value to the nearest binary64 number, ties to the even mantissa: an
  integer of at most 2^53 in absolute value is a binary64 number; any other value is
  rounded to 53 significant bits (fewer below 2^-1022), and a result of 2^1024 or more
  is an infinity.
\<close>

definition pow2 :: "int \<Rightarrow> rat" where
  "pow2 e = (if 0 \<le> e then 2 ^ nat e else 1 / 2 ^ nat (- e))"

function bitLength :: "int \<Rightarrow> nat" where
  "bitLength n = (if n \<le> 0 then 0 else Suc (bitLength (n div 2)))"
  by pat_completeness auto
termination
  by (relation "measure nat") auto

definition floorLog2 :: "rat \<Rightarrow> int" where
  "floorLog2 a =
     (case quotient_of a of
        (p, q) \<Rightarrow>
          (let e0 = int (bitLength p) - int (bitLength q)
           in if pow2 e0 \<le> a then e0 else e0 - 1))"

definition roundHalfEven :: "rat \<Rightarrow> int" where
  "roundHalfEven x =
     (let f = \<lfloor>x\<rfloor>; d = x - of_int f
      in if d < 1 / 2 then f
         else if 1 / 2 < d then f + 1
         else if even f then f else f + 1)"

definition toDouble :: "rat \<Rightarrow> jsnum" where
  "toDouble q =
     (if of_int \<lfloor>q\<rfloor> = q \<and> \<bar>q\<bar> \<le> 2 ^ 53 then Num q
      else
        (let a = \<bar>q\<bar>;
             e = max (floorLog2 a) (- 1022);
             ulp = pow2 (e - 52);
             r = of_int (roundHalfEven (a / ulp)) * ulp
         in if 2 ^ 1024 \<le> r then (if q < 0 then NegInf else PosInf)
            else Num (if q < 0 then - r else r)))"

text \<open>The exponent part of a decimal literal: \<open>e\<close> or \<open>E\<close>, an optional sign, and at
  least one digit. \<open>None\<close> when there is no complete exponent part at the front.\<close>

definition scanExponent :: "string \<Rightarrow> (int \<times> string) option" where
  "scanExponent r =
     (if r \<noteq> [] \<and> (hd r = CHR ''e'' \<or> hd r = CHR ''E'') then
        (let r1 = tl r;
             neg = (r1 \<noteq> [] \<and> hd r1 = CHR ''-'');
             r2 = (if r1 \<noteq> [] \<and> (hd r1 = CHR ''+'' \<or> hd r1 = CHR ''-'') then tl r1 else r1);
             ed = takeWhile isDigit r2
         in if ed = [] then None
            else Some ((if neg then - digitsValue 10 ed else digitsValue 10 ed),
                       dropWhile isDigit r2))
      else None)"

definition scaleBy :: "rat \<Rightarrow> int \<Rightarrow> rat" where
  "scaleBy m e = (if 0 \<le> e then m * 10 ^ nat e else m / 10 ^ nat (- e))"

text \<open>
  The longest unsigned decimal literal at the front of a string, with the text after it:
  digits with an optional fraction, or a fraction alone, and an optional exponent.
\<close>

definition scanDecimal :: "string \<Rightarrow> (rat \<times> string) option" where
  "scanDecimal s =
     (let ip = takeWhile isDigit s;
          r1 = dropWhile isDigit s;
          dot = (r1 \<noteq> [] \<and> hd r1 = CHR ''.'');
          fp = (if dot then takeWhile isDigit (tl r1) else []);
          r2 = (if dot then dropWhile isDigit (tl r1) else r1)
      in if ip = [] \<and> fp = [] then None
         else
           (let m = of_int (digitsValue 10 ip) + of_int (digitsValue 10 fp) / 10 ^ length fp
            in case scanExponent r2 of
                 Some (e, r3) \<Rightarrow> Some (scaleBy m e, r3)
               | None \<Rightarrow> Some (m, r2)))"

definition signOf :: "string \<Rightarrow> bool \<times> string" where
  "signOf t =
     (if t \<noteq> [] \<and> hd t = CHR ''-'' then (True, tl t)
      else if t \<noteq> [] \<and> hd t = CHR ''+'' then (False, tl t)
      else (False, t))"

text \<open>\<open>parseFloat(s)\<close>: leading white space is dropped, then the longest prefix that is a
  signed decimal literal or \<open>Infinity\<close> is read; \<open>NaN\<close> when there is none.\<close>

definition parseFloat :: "string \<Rightarrow> jsnum" where
  "parseFloat s =
     (case signOf (trimStart s) of (neg, u) \<Rightarrow>
        if startsWith u ''Infinity'' then (if neg then NegInf else PosInf)
        else (case scanDecimal u of
                None \<Rightarrow> NaN
              | Some (q, r) \<Rightarrow> toDouble (if neg then - q else q)))"

definition nonDecimalLiteral :: "string \<Rightarrow> int option" where
  "nonDecimalLiteral t =
     (if length t < 3 \<or> hd t \<noteq> CHR ''0'' then None
      else
        (let b = (if t ! 1 = CHR ''x'' \<or> t ! 1 = CHR ''X'' then 16
                  else if t ! 1 = CHR ''o'' \<or> t ! 1 = CHR ''O'' then 8
                  else if t ! 1 = CHR ''b'' \<or> t ! 1 = CHR ''B'' then 2
                  else 0 :: nat)
         in if b \<noteq> 0 \<and> list_all (isDigitOfBase b) (drop 2 t)
            then Some (digitsValue b (drop 2 t)) else None))"

text \<open>
  \<open>Number(s)\<close> on a string: the whole text, white space trimmed, must be a numeric
  literal. The empty text is \<open>0\<close>; a hexadecimal, octal or binary literal carries no sign.
\<close>

definition stringToNumber :: "string \<Rightarrow> jsnum" where
  "stringToNumber s =
     (let t = trim s
      in if t = [] then Num 0
         else (case nonDecimalLiteral t of
                 Some n \<Rightarrow> toDouble (of_int n)
               | None \<Rightarrow>
                   (case signOf t of (neg, u) \<Rightarrow>
                      if u = ''Infinity'' then (if neg then NegInf else PosInf)
                      else (case scanDecimal u of
                              Some (q, []) \<Rightarrow> toDouble (if neg then - q else q)
                            | _ \<Rightarrow> NaN))))"

text \<open>Decimal rendering of an integer, as \<open>String(n)\<close> prints a year, a month or a day.\<close>

fun natToString :: "nat \<Rightarrow> string" where
  "natToString n =
     (if n < 10 then [char_of (48 + n)]
      else natToString (n div 10) @ [char_of (48 + n mod 10)])"

definition intToString :: "int \<Rightarrow> string" where
  "intToString i = (if i < 0 then CHR ''-'' # natToString (nat (- i)) else natToString (nat i))"

section \<open>Word-Filter variant: default exclusion and the filter state\<close>

text \<open>\<open>isDefaultExcluded\<close> (page.tsx, lines 14-26): blank, numeric, or DSP-initiated.\<close>

definition isDefaultExcluded :: "string \<Rightarrow> bool" where
  "isDefaultExcluded word =
     (if word = ''__BLANK__'' then True
      else if stringToNumber word \<noteq> NaN \<and> trim word \<noteq> [] then True
      else if startsWith (toLowerCase word) ''dsp initiated work'' then True
      else False)"

subsection \<open>The classification in the words of the specification\<close>

text \<open>
  The three reasons for a default exclusion, stated on the text itself and not through
  the functions above. A text parses entirely as a number when, between white space, it
  is a numeric literal: an optional sign before \<open>Infinity\<close> or a decimal literal (digits
  with an optional fraction, or a fraction alone, and an optional exponent), or a
  hexadecimal, octal or binary integer literal, which takes no sign.
\<close>

definition decimalDigits :: "string \<Rightarrow> bool" where
  "decimalDigits ds = (ds \<noteq> [] \<and> list_all (\<lambda>c. c \<in> set ''0123456789'') ds)"

definition exponentPart :: "string \<Rightarrow> bool" where
  "exponentPart e =
     (\<exists>c sg ds. e = c # sg @ ds \<and> (c = CHR ''e'' \<or> c = CHR ''E'') \<and>
        (sg = [] \<or> sg = ''+'' \<or> sg = ''-'') \<and> decimalDigits ds)"

definition decimalLiteral :: "string \<Rightarrow> bool" where
  "decimalLiteral u =
     (\<exists>ip fp e. (e = [] \<or> exponentPart e) \<and>
        ((decimalDigits ip \<and> (fp = [] \<or> decimalDigits fp) \<and> u = ip @ ''.'' @ fp @ e) \<or>
         (decimalDigits fp \<and> u = ''.'' @ fp @ e) \<or>
         (decimalDigits ip \<and> u = ip @ e)))"

definition strUnsignedDecimalLiteral :: "string \<Rightarrow> bool" where
  "strUnsignedDecimalLiteral u = (u = ''Infinity'' \<or> decimalLiteral u)"

definition nonDecimalIntegerLiteral :: "string \<Rightarrow> bool" where
  "nonDecimalIntegerLiteral t =
     (\<exists>ds. ds \<noteq> [] \<and>
        ((list_all (\<lambda>c. c \<in> set ''0123456789abcdefABCDEF'') ds \<and>
            (t = ''0x'' @ ds \<or> t = ''0X'' @ ds)) \<or>
         (list_all (\<lambda>c. c \<in> set ''01234567'') ds \<and> (t = ''0o'' @ ds \<or> t = ''0O'' @ ds)) \<or>
         (list_all (\<lambda>c. c \<in> set ''01'') ds \<and> (t = ''0b'' @ ds \<or> t = ''0B'' @ ds))))"

definition strNumericLiteral :: "string \<Rightarrow> bool" where
  "strNumericLiteral t =
     ((\<exists>sg u. (sg = [] \<or> sg = ''+'' \<or> sg = ''-'') \<and> strUnsignedDecimalLiteral u \<and> t = sg @ u)
      \<or> nonDecimalIntegerLiteral t)"

definition parsesEntirelyAsNumber :: "string \<Rightarrow> bool" where
  "parsesEntirelyAsNumber w =
     (\<exists>l t r. w = l @ t @ r \<and> list_all isWhiteSpace l \<and> list_all isWhiteSpace r \<and>
        strNumericLiteral t)"

text \<open>A text begins with a phrase, compared case-insensitively, when it has a prefix
  that equals the phrase letter by letter up to the case of the letters A to Z.\<close>

definition sameLetterIgnoringCase :: "char \<Rightarrow> char \<Rightarrow> bool" where
  "sameLetterIgnoringCase c d =
     (c = d \<or> (CHR ''A'' \<le> c \<and> c \<le> CHR ''Z'' \<and> of_char c + 32 = (of_char d :: nat)))"

definition beginsIgnoringCase :: "string \<Rightarrow> string \<Rightarrow> bool" where
  "beginsIgnoringCase w p = (\<exists>a b. w = a @ b \<and> list_all2 sameLetterIgnoringCase a p)"

subsection \<open>The filter state\<close>

text \<open>
  The filter state is a plain object from words to flags: the map holds its own
  properties. A read \<open>state[word]\<close> of a word that is no own property finds the properties
  every plain object inherits from \<open>Object.prototype\<close>, which are not \<open>undefined\<close>.
\<close>

type_synonym FilterState = "string \<rightharpoonup> bool"

definition objectPrototypeKeys :: "string list" where
  "objectPrototypeKeys =
     [''constructor'', ''__proto__'', ''hasOwnProperty'', ''isPrototypeOf'',
      ''propertyIsEnumerable'', ''toLocaleString'', ''toString'', ''valueOf'',
      ''__defineGetter__'', ''__defineSetter__'', ''__lookupGetter__'', ''__lookupSetter__'']"

datatype slot = PUndefined | PFlag bool | PInherited

definition getProp :: "FilterState \<Rightarrow> string \<Rightarrow> slot" where
  "getProp st w =
     (case st w of
        Some b \<Rightarrow> PFlag b
      | None \<Rightarrow> if w \<in> set objectPrototypeKeys then PInherited else PUndefined)"

text \<open>\<open>toggleWord\<close> (lines 196-201):
  \<open>{...prev, [word]: prev[word] === undefined ? false : !prev[word]}\<close>.
  An inherited property is an object or a function, so its negation is \<open>false\<close>.\<close>

definition toggleWord :: "FilterState \<Rightarrow> string \<Rightarrow> FilterState" where
  "toggleWord prev word =
     prev(word \<mapsto> (case getProp prev word of
                      PUndefined \<Rightarrow> False
                    | PFlag b \<Rightarrow> \<not> b
                    | PInherited \<Rightarrow> False))"

text \<open>The state initialisation of \<open>processAndAddFiles\<close> (lines 471-480): one step of
  \<open>sortedWords.forEach\<close>, and the whole loop.\<close>

definition ingestWord :: "string \<Rightarrow> FilterState \<Rightarrow> FilterState" where
  "ingestWord word newState =
     (if getProp newState word = PUndefined
      then newState(word \<mapsto> \<not> isDefaultExcluded word)
      else newState)"

definition ingestTokens :: "FilterState \<Rightarrow> string list \<Rightarrow> FilterState" where
  "ingestTokens prevFilter sortedWords = fold ingestWord sortedWords prevFilter"

text \<open>\<open>s.includes(p)\<close>: the pattern stands somewhere in the text.\<close>

definition stringIncludes :: "string \<Rightarrow> string \<Rightarrow> bool" where
  "stringIncludes s p = list_ex (\<lambda>i. take (length p) (drop i s) = p) [0..<Suc (length s)]"

text \<open>An assignment \<open>state[word] = v\<close>. On a state without an own property \<open>__proto__\<close> the
  inherited setter takes the assignment and ignores a boolean.\<close>

definition assignProp :: "FilterState \<Rightarrow> string \<Rightarrow> bool \<Rightarrow> FilterState" where
  "assignProp st w v = (if w = ''__proto__'' \<and> st w = None then st else st(w \<mapsto> v))"

text \<open>\<open>setAllVisible\<close> (lines 203-211): every listed word that the search term selects
  gets the given flag.\<close>

definition setAllVisible :: "FilterState \<Rightarrow> string list \<Rightarrow> string \<Rightarrow> bool \<Rightarrow> FilterState" where
  "setAllVisible wordFilterState uniqueWords searchTerm status =
     fold (\<lambda>word newWordState.
             if searchTerm = [] \<or> stringIncludes word (toLowerCase searchTerm)
             then assignProp newWordState word status else newWordState)
          uniqueWords wordFilterState"

text \<open>
  The page toggles only the words it lists (lines 278-288: one checkbox for each word of
  \<open>uniqueWords\<close>), and it lists a word only together with its ingestion. So in every state
  of a session no listed word reads as \<open>undefined\<close>.
\<close>

definition listed :: "string list \<Rightarrow> FilterState \<Rightarrow> bool" where
  "listed uniqueWords st = list_all (\<lambda>w. getProp st w \<noteq> PUndefined) uniqueWords"

text \<open>The state a session starts with: \<open>useState({})\<close> (line 430).\<close>

definition initialFilterState :: FilterState where
  "initialFilterState = Map.empty"

text \<open>The spec's name for the default flag: \<open>true\<close> means included.\<close>

definition classifyDefault :: "string \<Rightarrow> bool" where
  "classifyDefault token = (\<not> isDefaultExcluded token)"

section \<open>Time values and the calendar\<close>

text \<open>
  A time value counts milliseconds from 1970-01-01T00:00:00Z. The conversions between a
  day number and a proleptic Gregorian date are what \<open>getUTCFullYear\<close>, \<open>getUTCMonth\<close>,
  \<open>getUTCDate\<close>, \<open>getUTCDay\<close> and \<open>Date.UTC\<close> compute.
\<close>

definition msPerDay :: int where
  "msPerDay = 86400000"

definition daysFromCivil :: "int \<Rightarrow> int \<Rightarrow> int \<Rightarrow> int" where
  "daysFromCivil y m d =
     (let y1 = (if m \<le> 2 then y - 1 else y);
          era = y1 div 400;
          yoe = y1 - era * 400;
          mp = (m + 9) mod 12;
          doy = (153 * mp + 2) div 5 + d - 1;
          doe = yoe * 365 + yoe div 4 - yoe div 100 + doy
      in era * 146097 + doe - 719468)"

definition civilFromDays :: "int \<Rightarrow> int \<times> int \<times> int" where
  "civilFromDays z =
     (let z1 = z + 719468;
          era = z1 div 146097;
          doe = z1 - era * 146097;
          yoe = (doe - doe div 1460 + doe div 36524 - doe div 146096) div 365;
          doy = doe - (365 * yoe + yoe div 4 - yoe div 100);
          mp = (5 * doy + 2) div 153;
          d = doy - (153 * mp + 2) div 5 + 1;
          m = (if mp < 10 then mp + 3 else mp - 9);
          y = yoe + era * 400
      in (if m \<le> 2 then y + 1 else y, m, d))"

definition getUTCFullYear :: "int \<Rightarrow> int" where
  "getUTCFullYear t = fst (civilFromDays (t div msPerDay))"

definition getUTCMonth :: "int \<Rightarrow> int" where
  "getUTCMonth t = fst (snd (civilFromDays (t div msPerDay))) - 1"

definition getUTCDate :: "int \<Rightarrow> int" where
  "getUTCDate t = snd (snd (civilFromDays (t div msPerDay)))"

definition getUTCDay :: "int \<Rightarrow> int" where
  "getUTCDay t = (t div msPerDay + 4) mod 7"

definition trunc :: "rat \<Rightarrow> int" where
  "trunc q = (if 0 \<le> q then \<lfloor>q\<rfloor> else \<lceil>q\<rceil>)"

text \<open>\<open>TimeClip\<close>: a time value is an integer of at most 8.64e15 in absolute value.\<close>

definition timeClip :: "int \<Rightarrow> int option" where
  "timeClip t = (if \<bar>t\<bar> \<le> 8640000000000000 then Some t else None)"

text \<open>\<open>Date.UTC(year, month, day)\<close>: a year from 0 to 99 means 1900 + year, a month out of
  0..11 carries into the year, a day counts from the first of the month.\<close>

definition dateUTC :: "jsnum \<Rightarrow> jsnum \<Rightarrow> jsnum \<Rightarrow> int option" where
  "dateUTC year month day =
     (case (year, month, day) of
        (Num y, Num m, Num d) \<Rightarrow>
          (let yi = trunc y;
               yr = (if 0 \<le> yi \<and> yi \<le> 99 then 1900 + yi else yi);
               mi = trunc m;
               ym = yr + mi div 12;
               mn = mi mod 12
           in timeClip ((daysFromCivil ym (mn + 1) 1 + trunc d - 1) * msPerDay))
      | _ \<Rightarrow> None)"

section \<open>The runtime\<close>

text \<open>
  A cell of the first worksheet, as \<open>XLSX.read(..., {cellDates: true})\<close> holds it: no
  cell, a number, a boolean, a text, a date (its time value) or an error (its code).
\<close>

datatype xcell =
    XEmpty
  | XNumber jsnum
  | XBool bool
  | XText string
  | XDate int
  | XError nat

text \<open>
  What the pages take from the JavaScript engine and from the \<open>xlsx\<close> package, and this
  repository does not define: the local time zone (minutes east of UTC, taken as fixed),
  \<open>Date.parse\<close> on a string, \<open>String(n)\<close> on a finite number, \<open>String(d)\<close> and
  \<open>d.toLocaleDateString('en-US', ...)\<close> on a valid date, \<open>XLSX.SSF.parse_date_code\<close>
  (year, month and day of a serial day number), and the formatted text of a cell that
  has a value (the package's \<open>format_cell\<close>, by the cell's number format). The functions
  that read the local time zone take it as their first argument.
\<close>

record runtime =
  tzOffset :: int
  dateParse :: "int \<Rightarrow> string \<Rightarrow> int option"
  numberToString :: "rat \<Rightarrow> string"
  dateToString :: "int \<Rightarrow> int \<Rightarrow> string"
  toLocaleDateString :: "int \<Rightarrow> int \<Rightarrow> string"
  parse_date_code :: "jsnum \<Rightarrow> (int \<times> int \<times> int) option"
  format_cell :: "xcell \<Rightarrow> string"

text \<open>\<open>String(v)\<close>.\<close>

fun jsString :: "runtime \<Rightarrow> jsval \<Rightarrow> string" where
  "jsString rt JUndefined = ''undefined''"
| "jsString rt JNull = ''null''"
| "jsString rt (JBool b) = (if b then ''true'' else ''false'')"
| "jsString rt (JNum (Num q)) = numberToString rt q"
| "jsString rt (JNum PosInf) = ''Infinity''"
| "jsString rt (JNum NegInf) = ''-Infinity''"
| "jsString rt (JNum NaN) = ''NaN''"
| "jsString rt (JStr s) = s"
| "jsString rt (JDate None) = ''Invalid Date''"
| "jsString rt (JDate (Some t)) = dateToString rt (tzOffset rt) t"

text \<open>\<open>new Date(v)\<close>: the time value of the new object.\<close>

fun newDate :: "runtime \<Rightarrow> jsval \<Rightarrow> int option" where
  "newDate rt (JDate t) = t"
| "newDate rt (JStr s) = dateParse rt (tzOffset rt) s"
| "newDate rt (JNum (Num q)) = timeClip (trunc q)"
| "newDate rt (JNum n) = None"
| "newDate rt (JBool b) = Some (if b then 1 else 0)"
| "newDate rt JNull = Some 0"
| "newDate rt JUndefined = None"

section \<open>Word-Filter variant: extraction\<close>

type_synonym grid = "jsval list list"

text \<open>
  \<open>parseExcelFile\<close> (lines 28-46) decodes the first sheet with
  \<open>sheet_to_json(worksheet, {header: 1, raw: false})\<close>: each row becomes an array, and
  with \<open>raw: false\<close> a cell that has a value is handed over as its formatted text. A
  place without a cell is not assigned and stays a hole of the array, an error cell of
  code 0 gives \<open>null\<close>, any other error cell is not assigned. The array ends with its
  last assigned place. A row without values is kept, as the empty array.
\<close>

definition decodeCell :: "runtime \<Rightarrow> xcell \<Rightarrow> jsval" where
  "decodeCell rt c =
     (case c of
        XEmpty \<Rightarrow> JUndefined
      | XError code \<Rightarrow> (if code = 0 then JNull else JUndefined)
      | _ \<Rightarrow> JStr (format_cell rt c))"

definition decodeRow :: "runtime \<Rightarrow> xcell list \<Rightarrow> jsval list" where
  "decodeRow rt row = rev (dropWhile (\<lambda>v. v = JUndefined) (rev (map (decodeCell rt) row)))"

definition parseExcelFile :: "runtime \<Rightarrow> xcell list list \<Rightarrow> grid" where
  "parseExcelFile rt sheet = map (decodeRow rt) sheet"

text \<open>\<open>jsonData[rowIndex]?.[colIndex]\<close>: \<open>undefined\<close> beyond the rows or beyond a row's
  cells; a hole of a sparse row is the cell \<open>JUndefined\<close>.\<close>

definition cellAt :: "grid \<Rightarrow> nat \<Rightarrow> nat \<Rightarrow> jsval" where
  "cellAt jsonData rowIndex colIndex =
     (if rowIndex < length jsonData \<and> colIndex < length (jsonData ! rowIndex)
      then jsonData ! rowIndex ! colIndex else JUndefined)"

text \<open>The token of a data cell, as both loops compute it (lines 64-69 and 92-93):
  \<open>String(cellValue || '').trim()\<close>, and \<open>__BLANK__\<close> for the empty text.\<close>

definition cellWord :: "runtime \<Rightarrow> jsval \<Rightarrow> string" where
  "cellWord rt cellValue =
     (let word = trim (jsString rt (if truthy cellValue then cellValue else JStr []))
      in if word = [] then ''__BLANK__'' else word)"

text \<open>\<open>extractUniqueWords\<close> (lines 55-76): every column from 2 up to the length of row 3,
  every row from 4 on; the set of words, sorted by code units.\<close>

definition extractUniqueWords :: "runtime \<Rightarrow> grid \<Rightarrow> string list" where
  "extractUniqueWords rt jsonData =
     (if length jsonData < 4 then []
      else sort (remdups (concat
             (map (\<lambda>colIndex.
                    map (\<lambda>rowIndex. cellWord rt (cellAt jsonData rowIndex colIndex))
                        [4..<length jsonData])
                  [2..<length (jsonData ! 3)]))))"

text \<open>\<open>wordFilterState[word] !== false\<close>.\<close>

definition isAllowed :: "FilterState \<Rightarrow> string \<Rightarrow> bool" where
  "isAllowed wordFilterState word = (getProp wordFilterState word \<noteq> PFlag False)"

text \<open>\<open>formatDate\<close> (lines 116-126).\<close>

definition formatDate :: "runtime \<Rightarrow> jsval \<Rightarrow> string" where
  "formatDate rt dateValue =
     (if \<not> truthy dateValue then ''N/A''
      else (case dateValue of
              JDate (Some t) \<Rightarrow> toLocaleDateString rt (tzOffset rt) t
            | _ \<Rightarrow> (case newDate rt dateValue of
                      Some t \<Rightarrow> toLocaleDateString rt (tzOffset rt) t
                    | None \<Rightarrow> jsString rt dateValue)))"

record AggregatedCount =
  date :: string
  rawDate :: jsval
  column :: nat
  count :: nat

text \<open>The count of one column (lines 88-102), and \<open>processExcelData\<close> (lines 79-114): one
  record for each column from 2 on whose cell in row 3 is truthy.\<close>

definition columnCount :: "runtime \<Rightarrow> grid \<Rightarrow> FilterState \<Rightarrow> nat \<Rightarrow> nat" where
  "columnCount rt jsonData wordFilterState colIndex =
     length (filter (\<lambda>rowIndex. isAllowed wordFilterState (cellWord rt (cellAt jsonData rowIndex colIndex)))
               [4..<length jsonData])"

definition processExcelData :: "runtime \<Rightarrow> grid \<Rightarrow> FilterState \<Rightarrow> AggregatedCount list" where
  "processExcelData rt jsonData wordFilterState =
     (if length jsonData < 4 then []
      else
        (let dateRow = jsonData ! 3
         in concat
              (map (\<lambda>colIndex.
                     (let dateValue = dateRow ! colIndex
                      in if truthy dateValue
                         then [\<lparr>date = formatDate rt dateValue, rawDate = dateValue,
                                column = colIndex,
                                count = columnCount rt jsonData wordFilterState colIndex\<rparr>]
                         else []))
                   [2..<length dateRow])))"

text \<open>The state update of \<open>processAndAddFiles\<close> (lines 458-483): the word list becomes
  the sorted union of the old words and the words of the new files, and every word of
  that list without an entry gets its default.\<close>

definition processAndAddFiles ::
  "runtime \<Rightarrow> string list \<times> FilterState \<Rightarrow> grid list \<Rightarrow> string list \<times> FilterState" where
  "processAndAddFiles rt prev newFiles =
     (let sortedWords = sort (remdups (fst prev @ concat (map (extractUniqueWords rt) newFiles)))
      in (sortedWords, ingestTokens (snd prev) sortedWords))"

section \<open>Metric variant: extraction\<close>

text \<open>\<open>parseNumber\<close> (lines 49-72); \<open>None\<close> is \<open>null\<close>.\<close>

definition divBy100 :: "jsnum \<Rightarrow> jsnum" where
  "divBy100 n = (case n of Num q \<Rightarrow> toDouble (q / 100) | _ \<Rightarrow> n)"

definition parseNumber :: "jsval \<Rightarrow> jsnum option" where
  "parseNumber v =
     (if v = JNull \<or> v = JUndefined \<or> v = JStr ''-'' \<or> v = JStr [] then None
      else (case v of
              JNum n \<Rightarrow> Some n
            | JStr s \<Rightarrow>
                (let cleanValue = trim (removeFirst (CHR ''%'') s);
                     parsed = parseFloat cleanValue
                 in if parsed \<noteq> NaN
                    then (if includesChar s (CHR ''%'') then Some (divBy100 parsed) else Some parsed)
                    else None)
            | _ \<Rightarrow> None))"

text \<open>\<open>toIsoDateString\<close> (lines 78-83); the getters of an invalid date give \<open>NaN\<close>.\<close>

definition toIsoDateString :: "int option \<Rightarrow> string" where
  "toIsoDateString dt =
     (case dt of
        None \<Rightarrow> ''NaN-NaN-NaN''
      | Some t \<Rightarrow>
          (let year = getUTCFullYear t;
               month = padStart2 (intToString (getUTCMonth t + 1));
               day = padStart2 (intToString (getUTCDate t))
           in intToString year @ ''-'' @ month @ ''-'' @ day))"

text \<open>\<open>getWeekNumber\<close> (lines 89-108). A piece the split does not give is \<open>undefined\<close>,
  which is \<open>NaN\<close> in arithmetic.\<close>

definition partAt :: "jsnum list \<Rightarrow> nat \<Rightarrow> jsnum" where
  "partAt ps i = (if i < length ps then ps ! i else NaN)"

definition minusOne :: "jsnum \<Rightarrow> jsnum" where
  "minusOne n = (case n of Num q \<Rightarrow> toDouble (q - 1) | _ \<Rightarrow> n)"

definition getWeekNumber :: "string \<Rightarrow> jsnum" where
  "getWeekNumber dateStr =
     (let parts = map stringToNumber (splitOn (CHR ''-'') dateStr);
          year = partAt parts 0;
          month = partAt parts 1;
          day = partAt parts 2;
          current = dateUTC year (minusOne month) day;
          jan1 = dateUTC year (Num 0) (Num 1)
      in case (current, jan1) of
           (Some c, Some j) \<Rightarrow>
             (let dayOfYear = (of_int (c - j) :: rat) / 86400000 + 1;
                  dayOfWeekJan1 = getUTCDay j
              in Num (of_int \<lceil>(dayOfYear + of_int dayOfWeekJan1) / 7\<rceil>))
         | _ \<Rightarrow> NaN)"

text \<open>One round of the header loop (lines 129-152): the date string a header cell adds
  to \<open>dates\<close>, if any. \<open>dateObj\<close> is \<open>None\<close> for \<open>null\<close>; a \<open>Date\<close> object is truthy also when
  it is invalid.\<close>

definition headerDate :: "runtime \<Rightarrow> jsval \<Rightarrow> string option" where
  "headerDate rt v =
     (if truthy v \<and> v \<noteq> JStr ''Total'' \<and> v \<noteq> JNull \<and> v \<noteq> JUndefined then
        (let dateObj =
               (case v of
                  JDate t \<Rightarrow> Some t
                | JStr s \<Rightarrow>
                    (case dateParse rt (tzOffset rt) s of
                       Some t \<Rightarrow> Some (Some t)
                     | None \<Rightarrow> None)
                | JNum n \<Rightarrow>
                    (case parse_date_code rt n of
                       Some (y, m, d) \<Rightarrow>
                         Some (dateUTC (Num (of_int y)) (Num (of_int (m - 1))) (Num (of_int d)))
                     | None \<Rightarrow> None)
                | _ \<Rightarrow> None)
         in case dateObj of Some t \<Rightarrow> Some (toIsoDateString t) | None \<Rightarrow> None)
      else None)"

text \<open>The header loop over the cells from column 1 on.\<close>

fun collectDates :: "runtime \<Rightarrow> jsval list \<Rightarrow> string list" where
  "collectDates rt [] = []"
| "collectDates rt (v # vs) =
     (case headerDate rt v of
        Some d \<Rightarrow> d # collectDates rt vs
      | None \<Rightarrow> collectDates rt vs)"

record ProcessedRow =
  Date :: string
  Week :: jsnum
  Capacity_reliability_score :: jsnum
  Completed_routes :: "jsnum option"
  Amazon_paid_cancels :: "jsnum option"
  DSP_dropped_routes :: "jsnum option"
  Reliability_target :: "jsnum option"
  Route_target :: "jsnum option"
  Flex_up_route_target :: "jsnum option"
  Final_scheduled :: "jsnum option"
  DSP_available_capacity :: "jsnum option"

text \<open>\<open>data[r] && c < data[r].length\<close>, the guard of each metric read; \<open>x || 0\<close>.\<close>

definition hasCell :: "grid \<Rightarrow> nat \<Rightarrow> nat \<Rightarrow> bool" where
  "hasCell data r c = (r < length data \<and> c < length (data ! r))"

definition orZero :: "jsnum option \<Rightarrow> jsnum" where
  "orZero r = (case r of None \<Rightarrow> Num 0 | Some n \<Rightarrow> if truthy (JNum n) then n else Num 0)"

definition metricAt :: "grid \<Rightarrow> nat \<Rightarrow> nat \<Rightarrow> jsnum option" where
  "metricAt data r c = (if hasCell data r c then parseNumber (data ! r ! c) else None)"

text \<open>One round of the row loop (lines 160-219): the row of the date at index \<open>dateIdx\<close>
  of \<open>dates\<close>, read at column \<open>dateIdx + 1\<close>.\<close>

definition buildRow :: "grid \<Rightarrow> nat \<Rightarrow> string \<Rightarrow> ProcessedRow" where
  "buildRow data dateIdx dateStr =
     (let dataColIndex = dateIdx + 1
      in \<lparr>Date = dateStr,
          Week = getWeekNumber dateStr,
          Capacity_reliability_score =
            (if hasCell data 1 dataColIndex then orZero (parseNumber (data ! 1 ! dataColIndex))
             else Num 0),
          Completed_routes = metricAt data 2 dataColIndex,
          Amazon_paid_cancels = metricAt data 3 dataColIndex,
          DSP_dropped_routes = metricAt data 4 dataColIndex,
          Reliability_target = metricAt data 5 dataColIndex,
          Route_target = metricAt data 6 dataColIndex,
          Flex_up_route_target = metricAt data 7 dataColIndex,
          Final_scheduled = metricAt data 8 dataColIndex,
          DSP_available_capacity = metricAt data 9 dataColIndex\<rparr>)"

datatype error = TypeError

text \<open>\<open>processExcelFile\<close> (lines 110-222) on the decoded rows. With no row at all
  \<open>data[0]\<close> is \<open>undefined\<close> and reading its \<open>length\<close> throws.\<close>

definition processExcelFile :: "runtime \<Rightarrow> grid \<Rightarrow> error + ProcessedRow list" where
  "processExcelFile rt data =
     (if data = [] then Inl TypeError
      else
        (let dateRow = data ! 0;
             dates = collectDates rt (drop 1 dateRow)
         in Inr (map (\<lambda>dateIdx. buildRow data dateIdx (dates ! dateIdx)) [0..<length dates])))"

section \<open>Metric variant: the compiled workbook\<close>

text \<open>
  \<open>allRows.sort((a, b) => a.Date.localeCompare(b.Date))\<close> sorts the array it is called
  on, in place. \<open>Array.prototype.sort\<close> is stable; with a comparator that orders
  consistently it computes what insertion from the right computes: an element goes
  before the first element it does not compare greater than. The comparator is a
  parameter (\<open>localeCompare\<close> collates by the engine's locale data).
\<close>

fun insertBy :: "('a \<Rightarrow> 'a \<Rightarrow> int) \<Rightarrow> 'a \<Rightarrow> 'a list \<Rightarrow> 'a list" where
  "insertBy cmp x [] = [x]"
| "insertBy cmp x (y # ys) = (if cmp x y \<le> 0 then x # y # ys else y # insertBy cmp x ys)"

definition sortBy :: "('a \<Rightarrow> 'a \<Rightarrow> int) \<Rightarrow> 'a list \<Rightarrow> 'a list" where
  "sortBy cmp xs = foldr (insertBy cmp) xs []"

text \<open>The worksheet that \<open>XLSX.utils.json_to_sheet\<close> builds and the function then
  formats: a cell has a type \<open>t\<close>, a content \<open>v\<close> and a number format \<open>z\<close>; a \<open>null\<close> field
  gives a stub cell, of type \<open>z\<close> and content \<open>null\<close>.\<close>

datatype cellv = SVal string | NVal jsnum | NullVal

record sheetCell =
  cell_t :: string
  cell_v :: cellv
  cell_z :: "string option"

record worksheet =
  cells :: "sheetCell option list list"
  cols :: "nat list"

definition strCell :: "string \<Rightarrow> sheetCell option" where
  "strCell s = Some \<lparr>cell_t = ''s'', cell_v = SVal s, cell_z = None\<rparr>"

definition numCell :: "jsnum \<Rightarrow> sheetCell option" where
  "numCell n = Some \<lparr>cell_t = ''n'', cell_v = NVal n, cell_z = None\<rparr>"

definition optCell :: "jsnum option \<Rightarrow> sheetCell option" where
  "optCell r =
     (case r of
        None \<Rightarrow> Some \<lparr>cell_t = ''z'', cell_v = NullVal, cell_z = None\<rparr>
      | Some n \<Rightarrow> numCell n)"

definition headerCells :: "sheetCell option list" where
  "headerCells =
     map strCell
       [''Date'', ''Week#'', ''Capacity reliability score'', ''Completed routes'',
        ''Amazon paid cancels'', ''DSP dropped routes'', ''Reliability target'',
        ''Route target'', ''Flex-up route target'', ''Final scheduled'',
        ''DSP available capacity'']"

definition rowCells :: "ProcessedRow \<Rightarrow> sheetCell option list" where
  "rowCells row =
     [strCell (Date row), numCell (Week row), numCell (Capacity_reliability_score row),
      optCell (Completed_routes row), optCell (Amazon_paid_cancels row),
      optCell (DSP_dropped_routes row), optCell (Reliability_target row),
      optCell (Route_target row), optCell (Flex_up_route_target row),
      optCell (Final_scheduled row), optCell (DSP_available_capacity row)]"

definition json_to_sheet :: "ProcessedRow list \<Rightarrow> sheetCell option list list" where
  "json_to_sheet rows = (if rows = [] then [] else headerCells # map rowCells rows)"

text \<open>The formatting loop (lines 251-263): in every row after the header, the cell of
  column 2, where there is one, becomes a number with the format \<open>0.0%\<close>.\<close>

definition formatCell :: "nat \<Rightarrow> nat \<Rightarrow> sheetCell option \<Rightarrow> sheetCell option" where
  "formatCell R C c =
     (case c of
        None \<Rightarrow> None
      | Some x \<Rightarrow>
          if C = 2 \<and> R > 0 then Some (x\<lparr>cell_z := Some ''0.0%'', cell_t := ''n''\<rparr>) else Some x)"

definition formatSheet :: "sheetCell option list list \<Rightarrow> sheetCell option list list" where
  "formatSheet sheet =
     map (\<lambda>(R, row). if R \<ge> 1 then map (\<lambda>(C, c). formatCell R C c) (enumerate 0 row) else row)
         (enumerate 0 sheet)"

text \<open>
  \<open>generateCompiledExcel\<close> (lines 224-290): the caller's array as the call leaves it, and
  the worksheet of the one sheet \<open>Compiled Data\<close> that is handed to \<open>XLSX.write\<close>.
\<close>

definition generateCompiledExcel ::
  "(string \<Rightarrow> string \<Rightarrow> int) \<Rightarrow> ProcessedRow list \<Rightarrow> ProcessedRow list \<times> worksheet" where
  "generateCompiledExcel localeCompare allRows =
     (let sorted = sortBy (\<lambda>a b. localeCompare (Date a) (Date b)) allRows
      in (sorted,
          \<lparr>cells = formatSheet (json_to_sheet sorted),
           cols = [15, 8, 22, 18, 20, 18, 18, 14, 20, 16, 22]\<rparr>))"

section \<open>A reference runtime\<close>

text \<open>
  A runtime to evaluate the pages at sample inputs. Its \<open>Date.parse\<close> reads the date-time
  string format of ECMAScript: \<open>YYYY-MM-DD\<close> alone, or followed by \<open>T\<close> and \<open>HH:mm\<close>,
  \<open>HH:mm:ss\<close> or \<open>HH:mm:ss.sss\<close>, then nothing, \<open>Z\<close> or an offset \<open>+HH:mm\<close> or \<open>-HH:mm\<close>. A date
  alone is UTC, a date with a time and neither \<open>Z\<close> nor an offset is local time. What an
  engine reads beyond that format (\<open>1/5/2024\<close>, \<open>Jan 5, 2024\<close>) is left to each engine by
  ECMAScript, and this runtime reads none of it. Its serial dates follow the 1900 date
  system of the \<open>xlsx\<close> package, with the day 60 that the system counts as 1900-02-29.
  Numbers print in decimal with at most twenty fraction digits; dates print as
  ECMAScript lays out \<open>Date.prototype.toString\<close>, with no zone name, and as \<open>Jan 5, 2024\<close>
  for the locale. Cells are formatted as the format \<open>General\<close> does: a number in decimal,
  a boolean as \<open>TRUE\<close> or \<open>FALSE\<close>, a text as it is, and a date as \<open>m/d/yy\<close>.
\<close>

definition daysInMonth :: "int \<Rightarrow> int \<Rightarrow> int" where
  "daysInMonth y m =
     daysFromCivil (if m = 12 then y + 1 else y) (if m = 12 then 1 else m + 1) 1
       - daysFromCivil y m 1"

definition isoDay :: "string \<Rightarrow> int option" where
  "isoDay s =
     (if length s = 10 \<and> s ! 4 = CHR ''-'' \<and> s ! 7 = CHR ''-'' \<and> list_all isDigit (take 4 s)
         \<and> list_all isDigit (take 2 (drop 5 s)) \<and> list_all isDigit (drop 8 s)
      then
        (let y = digitsValue 10 (take 4 s);
             m = digitsValue 10 (take 2 (drop 5 s));
             d = digitsValue 10 (drop 8 s)
         in if 1 \<le> m \<and> m \<le> 12 \<and> 1 \<le> d \<and> d \<le> daysInMonth y m
            then Some (daysFromCivil y m d) else None)
      else None)"

definition isoTime :: "string \<Rightarrow> int option" where
  "isoTime s =
     (if (length s = 5 \<or> length s = 8 \<or> length s = 12) \<and> s ! 2 = CHR '':''
         \<and> list_all isDigit (take 2 s) \<and> list_all isDigit (take 2 (drop 3 s))
         \<and> (if 8 \<le> length s then s ! 5 = CHR '':'' \<and> list_all isDigit (take 2 (drop 6 s))
             else True)
         \<and> (if length s = 12 then s ! 8 = CHR ''.'' \<and> list_all isDigit (drop 9 s) else True)
      then
        (let hh = digitsValue 10 (take 2 s);
             mm = digitsValue 10 (take 2 (drop 3 s));
             ss = digitsValue 10 (take 2 (drop 6 s));
             ms = digitsValue 10 (drop 9 s)
         in if hh \<le> 23 \<and> mm \<le> 59 \<and> ss \<le> 59
            then Some (hh * 3600000 + mm * 60000 + ss * 1000 + ms) else None)
      else None)"

text \<open>The offset at the end of a time, in minutes east of UTC, with the time before it;
  \<open>None\<close> for a time without offset, which is local time.\<close>

definition isoOffset :: "string \<Rightarrow> string \<times> int option" where
  "isoOffset r =
     (if r \<noteq> [] \<and> last r = CHR ''Z'' then (butlast r, Some 0)
      else
        (let n = length r; z = drop (n - 6) r
         in if 6 \<le> n \<and> (hd z = CHR ''+'' \<or> hd z = CHR ''-'') \<and> z ! 3 = CHR '':''
               \<and> list_all isDigit (take 2 (drop 1 z)) \<and> list_all isDigit (drop 4 z)
               \<and> digitsValue 10 (take 2 (drop 1 z)) \<le> 23 \<and> digitsValue 10 (drop 4 z) \<le> 59
            then (take (n - 6) r,
                  Some ((if hd z = CHR ''-'' then - 1 else 1)
                        * (digitsValue 10 (take 2 (drop 1 z)) * 60 + digitsValue 10 (drop 4 z))))
            else (r, None)))"

definition isoDateParse :: "int \<Rightarrow> string \<Rightarrow> int option" where
  "isoDateParse tz s =
     (if length s = 10 then map_option (\<lambda>d. d * msPerDay) (isoDay s)
      else if 11 < length s \<and> s ! 10 = CHR ''T'' then
        (case isoOffset (drop 11 s) of
           (tm, off) \<Rightarrow>
             (case (isoDay (take 10 s), isoTime tm) of
                (Some d, Some ms) \<Rightarrow>
                  Some (d * msPerDay + ms - (case off of None \<Rightarrow> tz | Some z \<Rightarrow> z) * 60000)
              | _ \<Rightarrow> None))
      else None)"

definition serialDate :: "jsnum \<Rightarrow> (int \<times> int \<times> int) option" where
  "serialDate n =
     (case n of
        Num v \<Rightarrow>
          if v > 2958465 \<or> v < 0 then None
          else
            (let date0 = trunc v;
                 time = \<lfloor>86400 * (v - of_int date0)\<rfloor>;
                 u = 86400 * (v - of_int date0) - of_int time;
                 date = (if u > 9999 / 10000 \<and> time + 1 = 86400 then date0 + 1 else date0)
             in if date = 60 then Some (1900, 2, 29)
                else if date = 0 then Some (1900, 1, 0)
                else Some (civilFromDays
                             (daysFromCivil 1900 1 1 + (if date > 60 then date - 1 else date) - 1)))
      | _ \<Rightarrow> None)"

fun fracDigits :: "nat \<Rightarrow> rat \<Rightarrow> string" where
  "fracDigits 0 r = []"
| "fracDigits (Suc k) r =
     (if r = 0 then []
      else char_of (48 + nat \<lfloor>r * 10\<rfloor>) # fracDigits k (r * 10 - of_int \<lfloor>r * 10\<rfloor>))"

definition decimalString :: "rat \<Rightarrow> string" where
  "decimalString q =
     (let a = \<bar>q\<bar>; ip = \<lfloor>a\<rfloor>; fr = a - of_int ip
      in (if q < 0 then ''-'' else []) @ natToString (nat ip)
         @ (if fr = 0 then [] else CHR ''.'' # fracDigits 20 fr))"

definition monthNames :: "string list" where
  "monthNames = [''Jan'', ''Feb'', ''Mar'', ''Apr'', ''May'', ''Jun'',
                 ''Jul'', ''Aug'', ''Sep'', ''Oct'', ''Nov'', ''Dec'']"

definition weekdayNames :: "string list" where
  "weekdayNames = [''Sun'', ''Mon'', ''Tue'', ''Wed'', ''Thu'', ''Fri'', ''Sat'']"

definition padNat :: "nat \<Rightarrow> int \<Rightarrow> string" where
  "padNat w i = (let s = natToString (nat \<bar>i\<bar>) in replicate (w - length s) (CHR ''0'') @ s)"

definition localeDate :: "int \<Rightarrow> int \<Rightarrow> string" where
  "localeDate tz t =
     (case civilFromDays ((t + tz * 60000) div msPerDay) of
        (y, m, d) \<Rightarrow> monthNames ! nat (m - 1) @ '' '' @ intToString d @ '', '' @ intToString y)"

definition dateText :: "int \<Rightarrow> int \<Rightarrow> string" where
  "dateText tz t =
     (let lt = t + tz * 60000; ms = lt mod msPerDay
      in case civilFromDays (lt div msPerDay) of
           (y, m, d) \<Rightarrow>
             weekdayNames ! nat (getUTCDay lt) @ '' '' @ monthNames ! nat (m - 1) @ '' ''
             @ padNat 2 d @ '' '' @ (if y < 0 then ''-'' else []) @ padNat 4 y @ '' ''
             @ padNat 2 (ms div 3600000) @ '':'' @ padNat 2 (ms div 60000 mod 60) @ '':''
             @ padNat 2 (ms div 1000 mod 60) @ '' GMT'' @ (if tz < 0 then ''-'' else ''+'')
             @ padNat 2 (\<bar>tz\<bar> div 60) @ padNat 2 (\<bar>tz\<bar> mod 60))"

definition generalFormat :: "xcell \<Rightarrow> string" where
  "generalFormat c =
     (case c of
        XNumber (Num q) \<Rightarrow> decimalString q
      | XNumber PosInf \<Rightarrow> ''Infinity''
      | XNumber NegInf \<Rightarrow> ''-Infinity''
      | XNumber NaN \<Rightarrow> ''NaN''
      | XBool b \<Rightarrow> (if b then ''TRUE'' else ''FALSE'')
      | XText s \<Rightarrow> s
      | XDate t \<Rightarrow>
          (case civilFromDays (t div msPerDay) of
             (y, m, d) \<Rightarrow> intToString m @ ''/'' @ intToString d @ ''/'' @ padNat 2 (y mod 100))
      | _ \<Rightarrow> [])"

definition refRuntime :: "int \<Rightarrow> runtime" where
  "refRuntime tz =
     \<lparr>tzOffset = tz, dateParse = isoDateParse, numberToString = decimalString,
      dateToString = dateText, toLocaleDateString = localeDate,
      parse_date_code = serialDate, format_cell = generalFormat\<rparr>"

text \<open>The code-unit order of two strings, as a comparator.\<close>

definition codeUnitCompare :: "string \<Rightarrow> string \<Rightarrow> int" where
  "codeUnitCompare a b = (if a < b then - 1 else if a = b then 0 else 1)"

text \<open>A row that took nothing from the grid: the capacity score is 0 and the other eight
  metrics are \<open>null\<close>.\<close>

definition emptyMetrics :: "ProcessedRow \<Rightarrow> bool" where
  "emptyMetrics r =
     (Capacity_reliability_score r = Num 0 \<and> Completed_routes r = None \<and>
      Amazon_paid_cancels r = None \<and> DSP_dropped_routes r = None \<and>
      Reliability_target r = None \<and> Route_target r = None \<and>
      Flex_up_route_target r = None \<and> Final_scheduled r = None \<and>
      DSP_available_capacity r = None)"

section \<open>Properties of the filter state\<close>

lemma ingestWord_Some: "st w = Some b \<Longrightarrow> ingestWord x st w = Some b"
  by (auto simp: ingestWord_def getProp_def)

lemma ingestTokens_Cons: "ingestTokens st (x # xs) = ingestTokens (ingestWord x st) xs"
  by (simp add: ingestTokens_def)

lemma ingestTokens_Some: "st w = Some b \<Longrightarrow> ingestTokens st ws w = Some b"
  unfolding ingestTokens_def
  by (induction ws arbitrary: st) (auto simp: ingestWord_Some)

lemma ingestWord_changed:
  "ingestWord x st w \<noteq> st w \<Longrightarrow>
     x = w \<and> st w = None \<and> ingestWord x st w = Some (\<not> isDefaultExcluded w)"
  by (auto simp: ingestWord_def getProp_def split: if_splits option.splits)

lemma ingestTokens_changed:
  "ingestTokens st ws w \<noteq> st w \<Longrightarrow>
     st w = None \<and> w \<in> set ws \<and> ingestTokens st ws w = Some (\<not> isDefaultExcluded w)"
proof (induction ws arbitrary: st)
  case Nil
  then show ?case by (simp add: ingestTokens_def)
next
  case (Cons x xs)
  show ?case
  proof (cases "ingestWord x st w = st w")
    case True
    with Cons.prems have "ingestTokens (ingestWord x st) xs w \<noteq> ingestWord x st w"
      by (simp add: ingestTokens_Cons)
    from Cons.IH [OF this] True show ?thesis by (simp add: ingestTokens_Cons)
  next
    case False
    from ingestWord_changed [OF False] have a: "x = w" "st w = None"
      and b: "ingestWord x st w = Some (\<not> isDefaultExcluded w)" by auto
    from ingestTokens_Some [of "ingestWord x st" w _ xs, OF b] a show ?thesis
      by (simp add: ingestTokens_Cons)
  qed
qed

lemma ingestTokens_added:
  "w \<in> set ws \<Longrightarrow> getProp st w = PUndefined \<Longrightarrow>
     ingestTokens st ws w = Some (\<not> isDefaultExcluded w)"
proof (induction ws arbitrary: st)
  case Nil
  then show ?case by simp
next
  case (Cons x xs)
  show ?case
  proof (cases "x = w")
    case True
    with Cons.prems have "ingestWord x st w = Some (\<not> isDefaultExcluded w)"
      by (simp add: ingestWord_def)
    from ingestTokens_Some [of "ingestWord x st" w _ xs, OF this] show ?thesis
      by (simp add: ingestTokens_Cons)
  next
    case False
    with Cons.prems have "w \<in> set xs" by simp
    moreover from False Cons.prems have "getProp (ingestWord x st) w = PUndefined"
      by (auto simp: ingestWord_def getProp_def split: option.splits if_splits)
    ultimately show ?thesis using Cons.IH by (simp add: ingestTokens_Cons)
  qed
qed

lemma toggleWord_self:
  "toggleWord st w w = Some (case st w of None \<Rightarrow> False | Some b \<Rightarrow> \<not> b)"
  by (auto simp: toggleWord_def getProp_def split: option.splits)




text \<open>
  Claim C5: ingestion leaves the flag of every token that has an entry unchanged; an
  entry that differs after ingestion belongs to an ingested token that had none, and
  holds that token's default; an ingested token that read as \<open>undefined\<close> gets its
  default. So a flag set by a toggle survives every later ingestion, also the one
  \<open>processAndAddFiles\<close> runs when the same documents are added again.
\<close>

theorem ingest_keeps_existing_flags:
  "(st w = Some b \<longrightarrow> ingestTokens st ws w = Some b) \<and>
   (ingestTokens st ws w \<noteq> st w \<longrightarrow>
      st w = None \<and> w \<in> set ws \<and> ingestTokens st ws w = Some (classifyDefault w)) \<and>
   (w \<in> set ws \<and> getProp st w = PUndefined \<longrightarrow>
      ingestTokens st ws w = Some (classifyDefault w)) \<and>
   ingestTokens (toggleWord st t) ws t = toggleWord st t t \<and>
   snd (processAndAddFiles rt (ws0, toggleWord st t) files) t = toggleWord st t t"
proof -
  have kept: "ingestTokens (toggleWord st t) xs t = toggleWord st t t" for xs
    using ingestTokens_Some
            [of "toggleWord st t" t "case st t of None \<Rightarrow> False | Some b \<Rightarrow> \<not> b" xs]
    by (simp add: toggleWord_self)
  have "snd (processAndAddFiles rt (ws0, toggleWord st t) files) t = toggleWord st t t"
    by (simp add: processAndAddFiles_def Let_def kept)
  then show ?thesis
    using ingestTokens_Some [of st w b ws] ingestTokens_changed [of st ws w]
      ingestTokens_added [of w ws st] kept [of ws]
    by (auto simp: classifyDefault_def)
qed

theorem ingest_keeps_existing_flags_witness:
  "[''Called Out'' \<mapsto> False] ''Called Out'' = Some False \<and>
   ingestTokens [''Called Out'' \<mapsto> False] [''42'', ''Called Out''] ''Called Out'' = Some False \<and>
   ingestTokens [''Called Out'' \<mapsto> False] [''42'', ''Called Out''] ''42'' = Some False \<and>
   ingestTokens Map.empty [''Called Out''] ''Called Out'' = Some True \<and>
   ingestTokens (toggleWord Map.empty ''Called Out'') [''Called Out''] ''Called Out'' = Some False"
proof -
  have d1: "classifyDefault ''42'' = False" and d2: "classifyDefault ''Called Out'' = True"
    by code_simp+
  have u1: "getProp [''Called Out'' \<mapsto> False] ''42'' = PUndefined"
    and u2: "getProp Map.empty ''Called Out'' = PUndefined"
    by (simp_all add: getProp_def objectPrototypeKeys_def)
  show ?thesis
    using ingest_keeps_existing_flags
            [of "[''Called Out'' \<mapsto> False]" "''Called Out''" False "[''42'', ''Called Out'']"]
          ingest_keeps_existing_flags
            [of "[''Called Out'' \<mapsto> False]" "''42''" _ "[''42'', ''Called Out'']"]
          ingest_keeps_existing_flags
            [of Map.empty "''Called Out''" _ "[''Called Out'']" "''Called Out''"]
          d1 d2 u1 u2
    by (simp add: toggleWord_self)
qed

section \<open>Properties of the default classification and of the tokens\<close>




section \<open>Properties of the Word-Filter extraction\<close>

text \<open>
  Claim C2 asks the inventory to skip the columns whose header cell is empty, as the
  count does. The code does not: in this grid column 3 has no header, the count has
  records for columns 2 and 4 only, and the inventory holds \<open>Z\<close>, which stands in
  column 3 alone.
\<close>

theorem inventory_scans_headerless_column:
  "extractUniqueWords rt
     [[], [], [],
      [JUndefined, JUndefined, JStr ''1/5/2024'', JUndefined, JStr ''1/7/2024''],
      [JStr ''Ann'', JStr ''x'', JStr ''A'', JStr ''Z'', JStr ''B'']] = [''A'', ''B'', ''Z''] \<and>
   map (\<lambda>c. (column c, count c))
     (processExcelData rt
        [[], [], [],
         [JUndefined, JUndefined, JStr ''1/5/2024'', JUndefined, JStr ''1/7/2024''],
         [JStr ''Ann'', JStr ''x'', JStr ''A'', JStr ''Z'', JStr ''B'']] Map.empty) = [(2, 1), (4, 1)]"
  by code_simp

section \<open>Properties of the Metric extraction\<close>

lemma collectDates_append:
  "collectDates rt (xs @ ys) = collectDates rt xs @ collectDates rt ys"
  by (induction xs) (auto split: option.splits)

lemma headerDate_skip: "v = JStr ''Total'' \<or> \<not> truthy v \<Longrightarrow> headerDate rt v = None"
  by (auto simp: headerDate_def)

lemma headerDate_JStr:
  "s \<noteq> [] \<Longrightarrow> s \<noteq> ''Total'' \<Longrightarrow>
   headerDate rt (JStr s) =
     map_option (\<lambda>t. toIsoDateString (Some t)) (dateParse rt (tzOffset rt) s)"
  by (simp add: headerDate_def split: option.splits)

lemma headerDate_JDate: "headerDate rt (JDate t) = Some (toIsoDateString t)"
  by (simp add: headerDate_def)

lemma Date_buildRow: "Date (buildRow data i d) = d"
  by (simp add: buildRow_def)

lemma processExcelFile_Cons:
  "processExcelFile rt (hdr # rest) =
     Inr (map (\<lambda>i. buildRow (hdr # rest) i (collectDates rt (drop 1 hdr) ! i))
            [0..<length (collectDates rt (drop 1 hdr))])"
  by (simp add: processExcelFile_def Let_def)

lemma processExcelFile_dates:
  "processExcelFile rt (hdr # rest) = Inr rows \<Longrightarrow> map Date rows = collectDates rt (drop 1 hdr)"
  by (auto simp: processExcelFile_Cons Date_buildRow comp_def map_nth)

lemma processExcelFile_rows:
  "collectDates rt hs = dates \<Longrightarrow>
   processExcelFile rt ((lbl # hs) # rest) =
     Inr (map (\<lambda>i. buildRow ((lbl # hs) # rest) i (dates ! i)) [0..<length dates])"
  by (auto simp: processExcelFile_Cons)

lemma iso_20240105: "toIsoDateString (Some 1704412800000) = ''2024-01-05''"
  by code_simp

lemma iso_20240106: "toIsoDateString (Some 1704499200000) = ''2024-01-06''"
  by code_simp

lemmas num_eval = stringToNumber_def trim_def trimStart_def trimEnd_def isWhiteSpace_def
  nonDecimalLiteral_def signOf_def scanDecimal_def scanExponent_def isDigit_def
  digitsValue_def digitOf_def Let_def

lemma toDouble_small: "of_int \<lfloor>q\<rfloor> = q \<Longrightarrow> \<bar>q\<bar> \<le> 2 ^ 53 \<Longrightarrow> toDouble q = Num q"
  by (simp add: toDouble_def)

lemma getWeekNumber_eval:
  "splitOn (CHR ''-'') s = [a, b, c] \<Longrightarrow> stringToNumber a = Num y \<Longrightarrow>
   stringToNumber b = Num m \<Longrightarrow> stringToNumber c = Num d \<Longrightarrow>
   dateUTC (Num y) (minusOne (Num m)) (Num d) = Some cur \<Longrightarrow>
   dateUTC (Num y) (Num 0) (Num 1) = Some j \<Longrightarrow>
   getWeekNumber s =
     Num (of_int \<lceil>((of_int (cur - j) :: rat) / 86400000 + 1 + of_int (getUTCDay j)) / 7\<rceil>)"
  by (simp add: getWeekNumber_def partAt_def Let_def)

lemma jan1_2024: "dateUTC (Num 2024) (Num 0) (Num 1) = Some 1704067200000"
  by code_simp

lemma january: "minusOne (Num 1) = Num 0"
  by (simp add: minusOne_def toDouble_small)

lemma weekday_jan1_2024: "getUTCDay 1704067200000 = 1"
  by code_simp

lemma week_20240105: "getWeekNumber ''2024-01-05'' = Num 1"
proof -
  have sp: "splitOn (CHR ''-'') ''2024-01-05'' = [''2024'', ''01'', ''05'']" by code_simp
  have y: "stringToNumber ''2024'' = Num 2024" and m: "stringToNumber ''01'' = Num 1"
    and d: "stringToNumber ''05'' = Num 5"
    by (simp_all add: num_eval toDouble_small)
  have "dateUTC (Num 2024) (Num 0) (Num 5) = Some 1704412800000" by code_simp
  then have cur: "dateUTC (Num 2024) (minusOne (Num 1)) (Num 5) = Some 1704412800000"
    by (simp add: january)
  show ?thesis
    unfolding getWeekNumber_eval [OF sp y m d cur jan1_2024] weekday_jan1_2024
    by code_simp
qed

lemma week_20240106: "getWeekNumber ''2024-01-06'' = Num 1"
proof -
  have sp: "splitOn (CHR ''-'') ''2024-01-06'' = [''2024'', ''01'', ''06'']" by code_simp
  have y: "stringToNumber ''2024'' = Num 2024" and m: "stringToNumber ''01'' = Num 1"
    and d: "stringToNumber ''06'' = Num 6"
    by (simp_all add: num_eval toDouble_small)
  have "dateUTC (Num 2024) (Num 0) (Num 6) = Some 1704499200000" by code_simp
  then have cur: "dateUTC (Num 2024) (minusOne (Num 1)) (Num 6) = Some 1704499200000"
    by (simp add: january)
  show ?thesis
    unfolding getWeekNumber_eval [OF sp y m d cur jan1_2024] weekday_jan1_2024
    by code_simp
qed

text \<open>
  Claim C1 asks every row to read its metrics in the column of its date header. The
  code reads the row of the \<open>n\<close>-th date it kept in column \<open>n + 1\<close>, so a skipped header
  shifts every date after it. Here the header row is label, 2024-01-05, \<open>Total\<close>,
  2024-01-06, and the metric rows hold 10, 20, 30 and 11, 21, 31: the row of 2024-01-06
  (column 3) gets 20 and 21, the cells of the \<open>Total\<close> column, not 30 and 31.
\<close>

theorem metric_row_reads_shifted_column:
  "processExcelFile rt
     [[JStr ''Metric'', JDate (Some 1704412800000), JStr ''Total'', JDate (Some 1704499200000)],
      [JStr ''Capacity reliability score'', JNum (Num 10), JNum (Num 20), JNum (Num 30)],
      [JStr ''Completed routes'', JNum (Num 11), JNum (Num 21), JNum (Num 31)]] =
   Inr [\<lparr>Date = ''2024-01-05'', Week = Num 1, Capacity_reliability_score = Num 10,
          Completed_routes = Some (Num 11), Amazon_paid_cancels = None,
          DSP_dropped_routes = None, Reliability_target = None, Route_target = None,
          Flex_up_route_target = None, Final_scheduled = None,
          DSP_available_capacity = None\<rparr>,
        \<lparr>Date = ''2024-01-06'', Week = Num 1, Capacity_reliability_score = Num 20,
          Completed_routes = Some (Num 21), Amazon_paid_cancels = None,
          DSP_dropped_routes = None, Reliability_target = None, Route_target = None,
          Flex_up_route_target = None, Final_scheduled = None,
          DSP_available_capacity = None\<rparr>]"
proof -
  have d: "collectDates rt [JDate (Some 1704412800000), JStr ''Total'', JDate (Some 1704499200000)]
             = [''2024-01-05'', ''2024-01-06'']"
    by (simp add: headerDate_JDate headerDate_skip iso_20240105 iso_20240106)
  show ?thesis
    unfolding processExcelFile_rows [OF d]
    by (simp add: upt_rec buildRow_def week_20240105 week_20240106
          metricAt_def hasCell_def parseNumber_def orZero_def)
qed

text \<open>A native date and a serial number do not read the local time zone, and neither
  does the reference \<open>Date.parse\<close> on a date without a time.\<close>

lemma headerDate_native_serial_any_timezone:
  "headerDate (rt\<lparr>tzOffset := tz\<rparr>) (JDate t) = headerDate rt (JDate t) \<and>
   headerDate (rt\<lparr>tzOffset := tz\<rparr>) (JNum n) = headerDate rt (JNum n)"
  by (simp add: headerDate_def)

lemma isoDateParse_date_only_any_timezone:
  "length s = 10 \<Longrightarrow> isoDateParse tz s = isoDateParse 0 s"
  by (simp add: isoDateParse_def)

text \<open>
  Claim C3 asks the date of a header cell to be the same in every time zone. For a text
  with a time and no offset it is not: \<open>Date.parse\<close> reads \<open>2024-01-05T00:00\<close> as local
  time, \<open>toIsoDateString\<close> reads the day in UTC, and one hour east of Greenwich the day is
  2024-01-04.
\<close>

theorem date_string_depends_on_timezone:
  "headerDate (refRuntime 0) (JStr ''2024-01-05T00:00'') = Some ''2024-01-05'' \<and>
   headerDate (refRuntime 60) (JStr ''2024-01-05T00:00'') = Some ''2024-01-04'' \<and>
   processExcelFile (refRuntime 0) [[JStr ''Metric'', JStr ''2024-01-05T00:00'']] =
     Inr [buildRow [[JStr ''Metric'', JStr ''2024-01-05T00:00'']] 0 ''2024-01-05''] \<and>
   processExcelFile (refRuntime 60) [[JStr ''Metric'', JStr ''2024-01-05T00:00'']] =
     Inr [buildRow [[JStr ''Metric'', JStr ''2024-01-05T00:00'']] 0 ''2024-01-04'']"
proof -
  have p0: "isoDateParse 0 ''2024-01-05T00:00'' = Some 1704412800000" by code_simp
  have p60: "isoDateParse 60 ''2024-01-05T00:00'' = Some 1704409200000" by code_simp
  have i60: "toIsoDateString (Some 1704409200000) = ''2024-01-04''" by code_simp
  have h: "headerDate (refRuntime 0) (JStr ''2024-01-05T00:00'') = Some ''2024-01-05''"
    "headerDate (refRuntime 60) (JStr ''2024-01-05T00:00'') = Some ''2024-01-04''"
    by (simp_all add: headerDate_JStr refRuntime_def p0 p60 iso_20240105 i60)
  have c: "collectDates (refRuntime 0) [JStr ''2024-01-05T00:00''] = [''2024-01-05'']"
    "collectDates (refRuntime 60) [JStr ''2024-01-05T00:00''] = [''2024-01-04'']"
    by (simp_all add: h)
  show ?thesis
    unfolding processExcelFile_rows [OF c(1)] processExcelFile_rows [OF c(2)]
    by (simp add: h)
qed

text \<open>
  Claim C6, as stated: no column to the right of a \<open>Total\<close> or empty header cell is a
  date column. It fails on a header row of label, \<open>Total\<close> (or an empty cell) and a date:
  the date on the right is collected and gets its row.
\<close>

theorem total_header_counterexample:
  "collectDates (refRuntime 0) [JStr ''Total'', JDate (Some 1704412800000)] = [''2024-01-05''] \<and>
   collectDates (refRuntime 0) [JNull, JDate (Some 1704412800000)] = [''2024-01-05''] \<and>
   processExcelFile (refRuntime 0) [[JStr ''Metric'', JStr ''Total'', JDate (Some 1704412800000)]] =
     Inr [\<lparr>Date = ''2024-01-05'', Week = Num 1, Capacity_reliability_score = Num 0,
            Completed_routes = None, Amazon_paid_cancels = None, DSP_dropped_routes = None,
            Reliability_target = None, Route_target = None, Flex_up_route_target = None,
            Final_scheduled = None, DSP_available_capacity = None\<rparr>]"
proof -
  have d: "collectDates rt [JStr ''Total'', JDate (Some 1704412800000)] = [''2024-01-05'']"
    "collectDates rt [JNull, JDate (Some 1704412800000)] = [''2024-01-05'']" for rt
    by (simp_all add: headerDate_JDate headerDate_skip iso_20240105)
  have r: "processExcelFile (refRuntime 0)
             [[JStr ''Metric'', JStr ''Total'', JDate (Some 1704412800000)]] =
     Inr [\<lparr>Date = ''2024-01-05'', Week = Num 1, Capacity_reliability_score = Num 0,
            Completed_routes = None, Amazon_paid_cancels = None, DSP_dropped_routes = None,
            Reliability_target = None, Route_target = None, Flex_up_route_target = None,
            Final_scheduled = None, DSP_available_capacity = None\<rparr>]"
    unfolding processExcelFile_rows [OF d(1)]
    by (simp add: buildRow_def week_20240105 metricAt_def hasCell_def)
  from d [of "refRuntime 0"] r show ?thesis by blast
qed

text \<open>
  Claim C6, amended: a header cell that is empty or equal to \<open>Total\<close> is skipped, it is
  no date column, and the scan goes on: the dates collected from the header row are
  those of the cells on its left followed by those of the cells on its right.
\<close>

theorem total_header_skipped_scan_continues:
  assumes "v = JStr ''Total'' \<or> \<not> truthy v"
  shows "headerDate rt v = None \<and>
         collectDates rt (xs @ v # ys) = collectDates rt xs @ collectDates rt ys \<and>
         (\<exists>rows. processExcelFile rt ((lbl # xs @ v # ys) # rest) = Inr rows \<and>
                 map Date rows = collectDates rt xs @ collectDates rt ys)"
proof -
  from assms have n: "headerDate rt v = None" by (rule headerDate_skip)
  then have c: "collectDates rt (xs @ v # ys) = collectDates rt xs @ collectDates rt ys"
    by (simp add: collectDates_append)
  obtain rows where r: "processExcelFile rt ((lbl # xs @ v # ys) # rest) = Inr rows"
    by (simp add: processExcelFile_Cons)
  from processExcelFile_dates [OF r] c have "map Date rows = collectDates rt xs @ collectDates rt ys"
    by simp
  with n c r show ?thesis by blast
qed

theorem total_header_skipped_scan_continues_witness:
  "headerDate (refRuntime 0) (JStr ''Total'') = None \<and>
   collectDates (refRuntime 0)
     ([JDate (Some 1704412800000)] @ JStr ''Total'' # [JDate (Some 1704499200000)]) =
     [''2024-01-05'', ''2024-01-06''] \<and>
   (\<exists>rows. processExcelFile (refRuntime 0)
             ((JStr ''Metric'' # [JDate (Some 1704412800000)] @ JStr ''Total''
                 # [JDate (Some 1704499200000)]) # []) = Inr rows \<and>
           map Date rows = [''2024-01-05'', ''2024-01-06''])"
proof -
  have d: "collectDates (refRuntime 0) [JDate (Some 1704412800000)] = [''2024-01-05'']"
    "collectDates (refRuntime 0) [JDate (Some 1704499200000)] = [''2024-01-06'']"
    by (simp_all add: headerDate_JDate iso_20240105 iso_20240106)
  show ?thesis
    using total_header_skipped_scan_continues
            [of "JStr ''Total''" "refRuntime 0" "[JDate (Some 1704412800000)]"
                "[JDate (Some 1704499200000)]" "JStr ''Metric''" "[]"]
    by (simp add: headerDate_JDate headerDate_skip iso_20240105 iso_20240106)
qed


lemma emptyMetrics_one_row: "emptyMetrics (buildRow [hdr] i d)"
  by (simp add: emptyMetrics_def buildRow_def metricAt_def hasCell_def)

text \<open>
  Claim C7, as stated: a grid below the minimum number of rows fails with a schema error.
  It fails on both variants: a Word-Filter grid of three rows gives the empty result and
  no error, and a Metric grid of one row gives a row for its date, with no metrics.
\<close>

theorem small_grid_counterexample:
  "length [[JStr ''a''], [JStr ''b'', JStr ''Co'', JStr ''St''], [JStr ''c'']] < (4 :: nat) \<and>
   processExcelData (refRuntime 0)
     [[JStr ''a''], [JStr ''b'', JStr ''Co'', JStr ''St''], [JStr ''c'']] initialFilterState = [] \<and>
   extractUniqueWords (refRuntime 0)
     [[JStr ''a''], [JStr ''b'', JStr ''Co'', JStr ''St''], [JStr ''c'']] = [] \<and>
   length [[JStr ''Metric'', JDate (Some 1704412800000)]] < (2 :: nat) \<and>
   processExcelFile (refRuntime 0) [[JStr ''Metric'', JDate (Some 1704412800000)]] =
     Inr [\<lparr>Date = ''2024-01-05'', Week = Num 1, Capacity_reliability_score = Num 0,
            Completed_routes = None, Amazon_paid_cancels = None, DSP_dropped_routes = None,
            Reliability_target = None, Route_target = None, Flex_up_route_target = None,
            Final_scheduled = None, DSP_available_capacity = None\<rparr>]"
proof -
  have d: "collectDates (refRuntime 0) [JDate (Some 1704412800000)] = [''2024-01-05'']"
    by (simp add: headerDate_JDate iso_20240105)
  have r: "processExcelFile (refRuntime 0) [[JStr ''Metric'', JDate (Some 1704412800000)]] =
     Inr [\<lparr>Date = ''2024-01-05'', Week = Num 1, Capacity_reliability_score = Num 0,
            Completed_routes = None, Amazon_paid_cancels = None, DSP_dropped_routes = None,
            Reliability_target = None, Route_target = None, Flex_up_route_target = None,
            Final_scheduled = None, DSP_available_capacity = None\<rparr>]"
    unfolding processExcelFile_rows [OF d]
    by (simp add: buildRow_def week_20240105 metricAt_def hasCell_def)
  show ?thesis
    by (simp add: r processExcelData_def extractUniqueWords_def)
qed

text \<open>
  Claim C7, amended: on a grid of fewer than four rows the Word-Filter extraction
  succeeds with no counts and no tokens. The Metric extraction fails on a grid with no
  row at all (the read of the header row throws a \<open>TypeError\<close>), and on a grid of one row it
  succeeds with one row for each date of the header, each with the capacity score 0 and
  the other metrics \<open>null\<close>.
\<close>

theorem small_grid_results:
  "(length g < 4 \<longrightarrow> processExcelData rt g st = [] \<and> extractUniqueWords rt g = []) \<and>
   processExcelFile rt [] = Inl TypeError \<and>
   (\<exists>rows. processExcelFile rt [hdr] = Inr rows \<and>
           map Date rows = collectDates rt (drop 1 hdr) \<and> list_all emptyMetrics rows)"
proof -
  have a: "length g < 4 \<longrightarrow> processExcelData rt g st = [] \<and> extractUniqueWords rt g = []"
    by (simp add: processExcelData_def extractUniqueWords_def)
  have b: "processExcelFile rt [] = Inl TypeError"
    by (simp add: processExcelFile_def)
  obtain rows where r: "processExcelFile rt [hdr] = Inr rows"
    and rows: "rows = map (\<lambda>i. buildRow [hdr] i (collectDates rt (drop 1 hdr) ! i))
                         [0..<length (collectDates rt (drop 1 hdr))]"
    by (simp add: processExcelFile_Cons)
  have "list_all emptyMetrics rows"
    by (simp add: rows list_all_iff emptyMetrics_one_row)
  with processExcelFile_dates [OF r] r a b show ?thesis by blast
qed

theorem small_grid_results_witness:
  "length [[JStr ''a''], [JStr ''b'', JStr ''Co'', JStr ''St''], [JStr ''c'']] < (4 :: nat) \<and>
   processExcelData (refRuntime 0)
     [[JStr ''a''], [JStr ''b'', JStr ''Co'', JStr ''St''], [JStr ''c'']] Map.empty = [] \<and>
   extractUniqueWords (refRuntime 0)
     [[JStr ''a''], [JStr ''b'', JStr ''Co'', JStr ''St''], [JStr ''c'']] = [] \<and>
   processExcelFile (refRuntime 0) [] = Inl TypeError \<and>
   (\<exists>rows. processExcelFile (refRuntime 0) [[JStr ''Metric'', JDate (Some 1704412800000)]]
             = Inr rows \<and>
           map Date rows = [''2024-01-05''] \<and> list_all emptyMetrics rows)"
  using small_grid_results
          [of "[[JStr ''a''], [JStr ''b'', JStr ''Co'', JStr ''St''], [JStr ''c'']]"
              "refRuntime 0" Map.empty "[JStr ''Metric'', JDate (Some 1704412800000)]"]
  by (simp add: headerDate_JDate iso_20240105)

section \<open>Properties of the compiled workbook\<close>

lemma sortBy_sorted: "sorted_wrt (\<lambda>a b. cmp a b \<le> 0) xs \<Longrightarrow> sortBy cmp xs = xs"
proof (induction xs)
  case Nil
  then show ?case by (simp add: sortBy_def)
next
  case (Cons x xs)
  then have "sortBy cmp xs = xs" by simp
  then have "sortBy cmp (x # xs) = insertBy cmp x xs" by (simp add: sortBy_def)
  also from Cons.prems have "insertBy cmp x xs = x # xs" by (cases xs) auto
  finally show ?case .
qed

text \<open>
  Claim C8: on a collection that is sorted by date, \<open>generateCompiledExcel\<close> leaves the
  caller's array as it was, the same rows in the same order (its sort in place moves
  nothing), and the worksheet it writes is a function of those rows alone.
\<close>

theorem generateCompiledExcel_keeps_sorted_rows:
  "sorted_wrt (\<lambda>a b. localeCompare (Date a) (Date b) \<le> 0) allRows \<Longrightarrow>
   fst (generateCompiledExcel localeCompare allRows) = allRows \<and>
   snd (generateCompiledExcel localeCompare allRows) =
     \<lparr>cells = formatSheet (json_to_sheet allRows),
      cols = [15, 8, 22, 18, 20, 18, 18, 14, 20, 16, 22]\<rparr>"
  by (simp add: generateCompiledExcel_def sortBy_sorted)

theorem generateCompiledExcel_keeps_sorted_rows_witness:
  "sorted_wrt (\<lambda>a b. codeUnitCompare (Date a) (Date b) \<le> 0)
     [buildRow [] 0 ''2024-01-05'', buildRow [] 1 ''2024-01-05'', buildRow [] 2 ''2024-02-20''] \<and>
   fst (generateCompiledExcel codeUnitCompare
          [buildRow [] 0 ''2024-01-05'', buildRow [] 1 ''2024-01-05'', buildRow [] 2 ''2024-02-20''])
     = [buildRow [] 0 ''2024-01-05'', buildRow [] 1 ''2024-01-05'', buildRow [] 2 ''2024-02-20'']"
proof -
  have s: "sorted_wrt (\<lambda>a b. codeUnitCompare (Date a) (Date b) \<le> 0)
     [buildRow [] 0 ''2024-01-05'', buildRow [] 1 ''2024-01-05'', buildRow [] 2 ''2024-02-20'']"
    by (simp add: Date_buildRow codeUnitCompare_def)
  from generateCompiledExcel_keeps_sorted_rows [OF s] s show ?thesis by simp
qed

text \<open>The sort is in place: a collection that is not sorted comes back reordered.\<close>

lemma generateCompiledExcel_reorders_unsorted:
  "map Date (fst (generateCompiledExcel codeUnitCompare
                    [buildRow [] 0 ''2024-03-10'', buildRow [] 1 ''2024-01-05'']))
     = [''2024-01-05'', ''2024-03-10'']"
  by (simp add: generateCompiledExcel_def Let_def sortBy_def Date_buildRow codeUnitCompare_def)

end
